theory Spec2Isabelle
  imports Main "HOL-Library.AList"
begin

section \<open>JavaScript values\<close>

text \<open>
  The methods of \<^verbatim>\<open>csv-connector/server/methods.js\<close> receive untyped JavaScript
  values. A value is one of the primitives, a date, an array or a plain object; a plain
  object is the list of its properties (the first binding of a name is the one read).
  Numbers are integers here: no method compares or computes with them.
\<close>

datatype jsval =
    JUndefined
  | JNull
  | JBool bool
  | JNum int
  | JStr string
  | JDate int
  | JArr "jsval list"
  | JObj "(string \<times> jsval) list"

type_synonym document = "(string \<times> jsval) list"

text \<open>Reading a property, \<^verbatim>\<open>o.k\<close>: a name the object does not bind reads \<^verbatim>\<open>undefined\<close>.\<close>

fun getProp :: "jsval \<Rightarrow> string \<Rightarrow> jsval" where
  "getProp (JObj kvs) k = (case map_of kvs k of Some v \<Rightarrow> v | None \<Rightarrow> JUndefined)"
| "getProp _ k = JUndefined"

text \<open>Truthiness, as \<^verbatim>\<open>&&\<close> tests it.\<close>

fun truthy :: "jsval \<Rightarrow> bool" where
  "truthy JUndefined = False"
| "truthy JNull = False"
| "truthy (JBool b) = b"
| "truthy (JNum n) = (n \<noteq> 0)"
| "truthy (JStr s) = (s \<noteq> [])"
| "truthy (JDate t) = True"
| "truthy (JArr xs) = True"
| "truthy (JObj kvs) = True"

section \<open>Errors\<close>

text \<open>
  What a method can throw: \<^verbatim>\<open>Match.Error\<close> from \<^verbatim>\<open>check\<close>, the \<^verbatim>\<open>TypeError\<close> of
  destructuring \<^verbatim>\<open>undefined\<close> or \<^verbatim>\<open>null\<close>, a \<^verbatim>\<open>Meteor.Error\<close> with its error code and its
  reason, and the write error of a collection whose insert meets a stored identifier.
\<close>

datatype error =
    MatchError
  | TypeError
  | MeteorError string string
  | DuplicateKey

section \<open>Argument checks of \<^verbatim>\<open>meteor/check\<close>\<close>

text \<open>\<^verbatim>\<open>check(v, Object)\<close> passes for a plain object only, \<^verbatim>\<open>check(v, String)\<close> for a string only.\<close>

fun check_Object :: "jsval \<Rightarrow> bool" where
  "check_Object (JObj kvs) = True"
| "check_Object _ = False"

fun check_String :: "jsval \<Rightarrow> bool" where
  "check_String (JStr s) = True"
| "check_String _ = False"

section \<open>Collections\<close>

text \<open>
  Modelled from the spec: the collections \<^verbatim>\<open>JobItems\<close> and \<^verbatim>\<open>Mappings\<close> are declared in
  \<^verbatim>\<open>../lib/collections\<close>, which is not among the sources. The spec gives them as keyed
  stores: \<^verbatim>\<open>insert(doc) -> id\<close>, \<^verbatim>\<open>findOne(id) -> doc | none\<close>, \<^verbatim>\<open>remove(id)\<close>,
  \<^verbatim>\<open>update(id, mapping)\<close>. A collection maps the string identifiers of its documents to
  them. A selector \<^verbatim>\<open>{ _id: v }\<close> picks the document stored under \<^verbatim>\<open>v\<close> when \<^verbatim>\<open>v\<close> is a
  string, and no document otherwise (query operators as \<^verbatim>\<open>_id\<close> are outside the model).
\<close>

type_synonym collection = "string \<rightharpoonup> document"

text \<open>
  Modelled from the spec: \<^verbatim>\<open>insert(doc) -> id\<close>. The identifier is generated outside the
  method (a random string), so it is an argument; the document is stored under it with
  its \<^verbatim>\<open>_id\<close>, and an identifier already in use is a write error that stores nothing.
\<close>

definition collection_insert ::
  "string \<Rightarrow> document \<Rightarrow> collection \<Rightarrow> error + (string \<times> collection)" where
  "collection_insert newId doc c =
     (case c newId of
        Some d \<Rightarrow> Inl DuplicateKey
      | None \<Rightarrow> Inr (newId, c(newId \<mapsto> (''_id'', JStr newId) # doc)))"

text \<open>Modelled from the spec: \<^verbatim>\<open>findOne(id) -> doc | none\<close>, none being \<^verbatim>\<open>undefined\<close>.\<close>

definition collection_findOne :: "jsval \<Rightarrow> collection \<Rightarrow> jsval" where
  "collection_findOne sel c =
     (case sel of
        JStr s \<Rightarrow> (case c s of Some d \<Rightarrow> JObj d | None \<Rightarrow> JUndefined)
      | _ \<Rightarrow> JUndefined)"

text \<open>Modelled from the spec: \<^verbatim>\<open>remove(id)\<close>.\<close>

definition collection_remove :: "jsval \<Rightarrow> collection \<Rightarrow> collection" where
  "collection_remove sel c = (case sel of JStr s \<Rightarrow> c(s := None) | _ \<Rightarrow> c)"

text \<open>
  Modelled from the spec: \<^verbatim>\<open>update(id, mapping)\<close>, the source's
  \<^verbatim>\<open>update({ _id: id }, { $set: { k: v } })\<close>: the field \<^verbatim>\<open>k\<close> of the selected document
  becomes \<^verbatim>\<open>v\<close>; with no document selected nothing is written.
\<close>

definition collection_update_set :: "jsval \<Rightarrow> string \<Rightarrow> jsval \<Rightarrow> collection \<Rightarrow> collection" where
  "collection_update_set sel k v c =
     (case sel of
        JStr s \<Rightarrow> (case c s of Some d \<Rightarrow> c(s \<mapsto> AList.update k v d) | None \<Rightarrow> c)
      | _ \<Rightarrow> c)"

section \<open>The database and the calling environment\<close>

record db =
  JobItems :: collection
  Mappings :: collection

text \<open>
  What a method invocation reads from outside: the result of \<^verbatim>\<open>Reaction.getShopId()\<close>, the
  result of \<^verbatim>\<open>Meteor.userId()\<close> (inside a method invocation it is the user's identifier, or
  \<^verbatim>\<open>null\<close> when nobody is logged in), the clock read by \<^verbatim>\<open>new Date()\<close>, and the identifiers
  the two inserts generate.
\<close>

record env =
  getShopId :: jsval
  userId :: jsval
  now :: int
  jobItemRandomId :: string
  mappingRandomId :: string

section \<open>\<^verbatim>\<open>csvConnector/saveJobItem\<close>\<close>

text \<open>
  The result is the thrown error or the returned value, together with the database the
  call leaves: a throw after the first insert keeps that insert.
\<close>

definition saveJobItem :: "env \<Rightarrow> jsval \<Rightarrow> db \<Rightarrow> (error + jsval) \<times> db" where
  "saveJobItem e values d =
     (if \<not> check_Object values then (Inl MatchError, d)
      else
        let collection = getProp values ''collection'';
            fileSource = getProp values ''fileSource'';
            hasHeader = getProp values ''hasHeader'';
            jobSubType = getProp values ''jobSubType'';
            jobType = getProp values ''jobType'';
            mappingByUser = getProp values ''mappingByUser'';
            mappingId = getProp values ''mappingId'';
            name = getProp values ''name'';
            newMappingName = getProp values ''newMappingName'';
            saveMappingAction = getProp values ''saveMappingAction'';
            shouldSaveToNewMapping = getProp values ''shouldSaveToNewMapping'';
            shopId = getShopId e
        in
          case collection_insert (jobItemRandomId e)
                 [(''collection'', collection),
                  (''fileSource'', fileSource),
                  (''hasHeader'', hasHeader),
                  (''jobSubType'', jobSubType),
                  (''jobType'', jobType),
                  (''mapping'', mappingByUser),
                  (''mappingId'', mappingId),
                  (''name'', name),
                  (''shopId'', shopId),
                  (''status'', JStr ''pending''),
                  (''uploadedAt'', JDate (now e)),
                  (''userId'', userId e)]
                 (JobItems d) of
            Inl err \<Rightarrow> (Inl err, d)
          | Inr (jobItemId, jobs) \<Rightarrow>
              let d1 = d\<lparr>JobItems := jobs\<rparr> in
                if (mappingId = JStr ''create'' \<and> truthy shouldSaveToNewMapping)
                   \<or> (mappingId \<noteq> JStr ''create'' \<and> saveMappingAction = JStr ''create'')
                then
                  (case collection_insert (mappingRandomId e)
                          [(''shopId'', shopId),
                           (''name'', newMappingName),
                           (''collection'', collection),
                           (''mapping'', mappingByUser)]
                          (Mappings d1) of
                     Inl err \<Rightarrow> (Inl err, d1)
                   | Inr (mappingNewId, maps) \<Rightarrow> (Inr (JStr jobItemId), d1\<lparr>Mappings := maps\<rparr>))
                else if mappingId \<noteq> JStr ''create'' \<and> saveMappingAction = JStr ''update''
                then
                  (Inr (JStr jobItemId),
                   d1\<lparr>Mappings := collection_update_set mappingId ''mapping'' mappingByUser (Mappings d1)\<rparr>)
                else (Inr (JStr jobItemId), d1))"

section \<open>\<^verbatim>\<open>csvConnector/removeJobItem\<close>\<close>

text \<open>
  \<^verbatim>\<open>const { status } = jobItem\<close> throws a \<^verbatim>\<open>TypeError\<close> when \<^verbatim>\<open>findOne\<close> found nothing.
\<close>

definition removeJobItem :: "jsval \<Rightarrow> db \<Rightarrow> (error + jsval) \<times> db" where
  "removeJobItem jobItemId d =
     (if \<not> check_String jobItemId then (Inl MatchError, d)
      else
        let jobItem = collection_findOne jobItemId (JobItems d) in
          if jobItem = JUndefined \<or> jobItem = JNull then (Inl TypeError, d)
          else
            let status = getProp jobItem ''status'' in
              if status = JStr ''inProgress''
              then (Inl (MeteorError ''invalid'' ''Job item is in progress and can't be deleted.''), d)
              else (Inr (JBool True), d\<lparr>JobItems := collection_remove jobItemId (JobItems d)\<rparr>))"

section \<open>Auxiliary facts\<close>

lemma getProp_not_object:
  "\<not> check_Object values \<Longrightarrow> getProp values k = JUndefined"
  by (cases "values") simp_all

lemma getProp_AList_update:
  "getProp (JObj (AList.update k v t)) k' = (if k' = k then v else getProp (JObj t) k')"
  by (simp add: update_conv')

text \<open>The job item a call stores, once the argument check and the insert have passed.\<close>

lemma saveJobItem_JobItems:
  assumes "check_Object values" and "JobItems d (jobItemRandomId e) = None"
  shows "JobItems (snd (saveJobItem e values d)) =
      (JobItems d)(jobItemRandomId e \<mapsto>
            [(''_id'', JStr (jobItemRandomId e)),
             (''collection'', getProp values ''collection''),
             (''fileSource'', getProp values ''fileSource''),
             (''hasHeader'', getProp values ''hasHeader''),
             (''jobSubType'', getProp values ''jobSubType''),
             (''jobType'', getProp values ''jobType''),
             (''mapping'', getProp values ''mappingByUser''),
             (''mappingId'', getProp values ''mappingId''),
             (''name'', getProp values ''name''),
             (''shopId'', getShopId e),
             (''status'', JStr ''pending''),
             (''uploadedAt'', JDate (now e)),
             (''userId'', userId e)])"
  using assms
  by (simp add: saveJobItem_def collection_insert_def Let_def split: option.splits)

text \<open>A call that returns has passed the argument check and has met a fresh identifier.\<close>

lemma saveJobItem_Inr:
  assumes "fst (saveJobItem e values d) = Inr r"
  shows "check_Object values \<and> JobItems d (jobItemRandomId e) = None
         \<and> r = JStr (jobItemRandomId e)"
proof -
  have obj: "check_Object values"
    using assms by (cases "check_Object values") (simp_all add: saveJobItem_def)
  have fresh: "JobItems d (jobItemRandomId e) = None"
    using assms obj
    by (cases "JobItems d (jobItemRandomId e)") (simp_all add: saveJobItem_def collection_insert_def)
  have "r = JStr (jobItemRandomId e)"
    using assms obj fresh
    by (simp add: saveJobItem_def collection_insert_def Let_def split: option.splits if_splits)
  with obj fresh show ?thesis by simp
qed

section \<open>Removing a job item\<close>

text \<open>
  C9. Whatever the argument of \<^verbatim>\<open>removeJobItem\<close> and whether the call returns or throws,
  the \<^verbatim>\<open>Mappings\<close> collection afterwards is the one before: no mapping template is
  inserted, changed or deleted.
\<close>

theorem removeJobItem_Mappings_unchanged:
  "Mappings (snd (removeJobItem jobItemId d)) = Mappings d"
  by (simp add: removeJobItem_def Let_def)

text \<open>
  C6. For a stored job item \<open>j\<close>, \<^verbatim>\<open>removeJobItem\<close> on its identifier throws the
  \<^verbatim>\<open>Meteor.Error\<close> with reason "Job item is in progress and can't be deleted." (error code
  \<^verbatim>\<open>invalid\<close>, the conflict error of the spec) and leaves the database as it was, so \<open>j\<close>
  stays stored, exactly when the status of \<open>j\<close> is \<^verbatim>\<open>inProgress\<close>; with any other status it
  returns \<^verbatim>\<open>true\<close> and \<open>j\<close> is no longer stored.
\<close>

theorem removeJobItem_status_gate:
  assumes "JobItems d jid = Some j"
  shows "removeJobItem (JStr jid) d =
           (if getProp (JObj j) ''status'' = JStr ''inProgress''
            then (Inl (MeteorError ''invalid'' ''Job item is in progress and can't be deleted.''), d)
            else (Inr (JBool True), d\<lparr>JobItems := (JobItems d)(jid := None)\<rparr>))
         \<and> (JobItems (snd (removeJobItem (JStr jid) d)) jid = Some j
              \<longleftrightarrow> getProp (JObj j) ''status'' = JStr ''inProgress'')
         \<and> (JobItems (snd (removeJobItem (JStr jid) d)) jid = None
              \<longleftrightarrow> getProp (JObj j) ''status'' \<noteq> JStr ''inProgress'')"
  using assms
  by (simp add: removeJobItem_def collection_findOne_def collection_remove_def Let_def)

text \<open>
  Scenarios C and D of the spec: \<open>j1\<close> is in progress and stays, \<open>j2\<close> is pending and goes.
\<close>

theorem removeJobItem_status_gate_witness:
  "JobItems 
      \<lparr>JobItems = [''j1'' \<mapsto> [(''_id'', JStr ''j1''), (''status'', JStr ''inProgress'')], ''j2'' \<mapsto> [(''_id'', JStr ''j2''), (''status'', JStr ''pending'')]], Mappings = Map.empty\<rparr> ''j1'' = Some [(''_id'', JStr ''j1''), (''status'', JStr ''inProgress'')]
   \<and> fst (removeJobItem (JStr ''j1'') 
      \<lparr>JobItems = [''j1'' \<mapsto> [(''_id'', JStr ''j1''), (''status'', JStr ''inProgress'')], ''j2'' \<mapsto> [(''_id'', JStr ''j2''), (''status'', JStr ''pending'')]], Mappings = Map.empty\<rparr>)
       = Inl (MeteorError ''invalid'' ''Job item is in progress and can't be deleted.'')
   \<and> JobItems (snd (removeJobItem (JStr ''j1'') 
      \<lparr>JobItems = [''j1'' \<mapsto> [(''_id'', JStr ''j1''), (''status'', JStr ''inProgress'')], ''j2'' \<mapsto> [(''_id'', JStr ''j2''), (''status'', JStr ''pending'')]], Mappings = Map.empty\<rparr>)) ''j1''
       = Some [(''_id'', JStr ''j1''), (''status'', JStr ''inProgress'')]
   \<and> JobItems 
      \<lparr>JobItems = [''j1'' \<mapsto> [(''_id'', JStr ''j1''), (''status'', JStr ''inProgress'')], ''j2'' \<mapsto> [(''_id'', JStr ''j2''), (''status'', JStr ''pending'')]], Mappings = Map.empty\<rparr> ''j2'' = Some [(''_id'', JStr ''j2''), (''status'', JStr ''pending'')]
   \<and> fst (removeJobItem (JStr ''j2'') 
      \<lparr>JobItems = [''j1'' \<mapsto> [(''_id'', JStr ''j1''), (''status'', JStr ''inProgress'')], ''j2'' \<mapsto> [(''_id'', JStr ''j2''), (''status'', JStr ''pending'')]], Mappings = Map.empty\<rparr>) = Inr (JBool True)
   \<and> JobItems (snd (removeJobItem (JStr ''j2'') 
      \<lparr>JobItems = [''j1'' \<mapsto> [(''_id'', JStr ''j1''), (''status'', JStr ''inProgress'')], ''j2'' \<mapsto> [(''_id'', JStr ''j2''), (''status'', JStr ''pending'')]], Mappings = Map.empty\<rparr>)) ''j2'' = None"
  using removeJobItem_status_gate [of "
      \<lparr>JobItems = [''j1'' \<mapsto> [(''_id'', JStr ''j1''), (''status'', JStr ''inProgress'')], ''j2'' \<mapsto> [(''_id'', JStr ''j2''), (''status'', JStr ''pending'')]], Mappings = Map.empty\<rparr>" "''j1''" "[(''_id'', JStr ''j1''), (''status'', JStr ''inProgress'')]"]
    removeJobItem_status_gate [of "
      \<lparr>JobItems = [''j1'' \<mapsto> [(''_id'', JStr ''j1''), (''status'', JStr ''inProgress'')], ''j2'' \<mapsto> [(''_id'', JStr ''j2''), (''status'', JStr ''pending'')]], Mappings = Map.empty\<rparr>" "''j2''" "[(''_id'', JStr ''j2''), (''status'', JStr ''pending'')]"]
  by simp

text \<open>
  C1. On an identifier under which no job item is stored, \<^verbatim>\<open>removeJobItem\<close> throws the
  \<^verbatim>\<open>TypeError\<close> of destructuring \<^verbatim>\<open>undefined\<close>, not a not-found error; the database is left
  as it was, so no job item is deleted.
\<close>

theorem removeJobItem_missing_TypeError:
  "JobItems d jid = None \<Longrightarrow> removeJobItem (JStr jid) d = (Inl TypeError, d)"
  by (simp add: removeJobItem_def collection_findOne_def)

theorem removeJobItem_missing_TypeError_witness:
  "JobItems 
      \<lparr>JobItems = [''j1'' \<mapsto> [(''_id'', JStr ''j1''), (''status'', JStr ''inProgress'')], ''j2'' \<mapsto> [(''_id'', JStr ''j2''), (''status'', JStr ''pending'')]], Mappings = Map.empty\<rparr> ''j404'' = None
   \<and> removeJobItem (JStr ''j404'') 
      \<lparr>JobItems = [''j1'' \<mapsto> [(''_id'', JStr ''j1''), (''status'', JStr ''inProgress'')], ''j2'' \<mapsto> [(''_id'', JStr ''j2''), (''status'', JStr ''pending'')]], Mappings = Map.empty\<rparr> = (Inl TypeError, 
      \<lparr>JobItems = [''j1'' \<mapsto> [(''_id'', JStr ''j1''), (''status'', JStr ''inProgress'')], ''j2'' \<mapsto> [(''_id'', JStr ''j2''), (''status'', JStr ''pending'')]], Mappings = Map.empty\<rparr>)"
  using removeJobItem_missing_TypeError [of "
      \<lparr>JobItems = [''j1'' \<mapsto> [(''_id'', JStr ''j1''), (''status'', JStr ''inProgress'')], ''j2'' \<mapsto> [(''_id'', JStr ''j2''), (''status'', JStr ''pending'')]], Mappings = Map.empty\<rparr>" "''j404''"]
  by simp

section \<open>Saving a job item: the argument check\<close>

text \<open>
  C2, as the code has it. \<^verbatim>\<open>saveJobItem\<close> checks only that \<^verbatim>\<open>values\<close> is a plain object: it
  throws the \<^verbatim>\<open>Match.Error\<close> exactly when it is not, and then the database is untouched.
  No field of \<^verbatim>\<open>values\<close> is checked: whenever \<^verbatim>\<open>values\<close> is a plain object and the generated
  identifier is fresh, the job item is stored, whatever fields are missing.
\<close>

theorem saveJobItem_checks_object_only:
  "(fst (saveJobItem e values d) = Inl MatchError \<longleftrightarrow> \<not> check_Object values)
   \<and> (\<not> check_Object values \<longrightarrow> snd (saveJobItem e values d) = d)
   \<and> (check_Object values \<and> JobItems d (jobItemRandomId e) = None
        \<longrightarrow> JobItems (snd (saveJobItem e values d)) (jobItemRandomId e) \<noteq> None)"
  by (auto simp add: saveJobItem_def collection_insert_def Let_def split: option.splits)

theorem saveJobItem_checks_object_only_witness:
  "\<not> check_Object (JStr ''job'')
   \<and> saveJobItem
        \<lparr>getShopId = JStr ''shop1'', userId = JStr ''user1'', now = 1000,
        jobItemRandomId = ''j1'', mappingRandomId = ''m2''\<rparr>
        (JStr ''job'') \<lparr>JobItems = Map.empty, Mappings = Map.empty\<rparr>
      = (Inl MatchError, \<lparr>JobItems = Map.empty, Mappings = Map.empty\<rparr>)"
  using saveJobItem_checks_object_only
    [of "\<lparr>getShopId = JStr ''shop1'', userId = JStr ''user1'', now = 1000,
        jobItemRandomId = ''j1'', mappingRandomId = ''m2''\<rparr>"
        "JStr ''job''" "\<lparr>JobItems = Map.empty, Mappings = Map.empty\<rparr>"]
  by (simp add: prod_eq_iff)

text \<open>
  C2 as stated fails: with the empty object every required field is missing, yet the
  call returns the new identifier and the job item is stored.
\<close>

theorem saveJobItem_missing_fields_counterexample:
  "getProp (JObj []) ''name'' = JUndefined
   \<and> getProp (JObj []) ''mappingId'' = JUndefined
   \<and> fst (saveJobItem
        \<lparr>getShopId = JStr ''shop1'', userId = JStr ''user1'', now = 1000,
        jobItemRandomId = ''j1'', mappingRandomId = ''m2''\<rparr>
        (JObj []) \<lparr>JobItems = Map.empty, Mappings = Map.empty\<rparr>)
      = Inr (JStr ''j1'')
   \<and> JobItems (snd (saveJobItem
        \<lparr>getShopId = JStr ''shop1'', userId = JStr ''user1'', now = 1000,
        jobItemRandomId = ''j1'', mappingRandomId = ''m2''\<rparr>
        (JObj []) \<lparr>JobItems = Map.empty, Mappings = Map.empty\<rparr>)) ''j1''
      \<noteq> None"
  by (simp add: saveJobItem_def collection_insert_def Let_def)

section \<open>Saving a job item: the job item stored\<close>

text \<open>
  C7. A call of \<^verbatim>\<open>saveJobItem\<close> that returns has returned the identifier generated for the
  job item, which was not in use, and leaves the \<^verbatim>\<open>JobItems\<close> collection with exactly one
  more document, stored under that identifier: its status is \<^verbatim>\<open>pending\<close>, its
  \<^verbatim>\<open>uploadedAt\<close> the current time, its \<^verbatim>\<open>userId\<close> the current user, its \<^verbatim>\<open>shopId\<close> the current
  shop and its \<^verbatim>\<open>mapping\<close> the \<^verbatim>\<open>mappingByUser\<close> of the argument as it came.
\<close>

theorem saveJobItem_returns_pending_job:
  assumes "fst (saveJobItem e values d) = Inr r"
  shows "r = JStr (jobItemRandomId e)
         \<and> JobItems d (jobItemRandomId e) = None
         \<and> (\<exists>doc. JobItems (snd (saveJobItem e values d)) = (JobItems d)(jobItemRandomId e \<mapsto> doc)
               \<and> getProp (JObj doc) ''_id'' = JStr (jobItemRandomId e)
               \<and> getProp (JObj doc) ''status'' = JStr ''pending''
               \<and> getProp (JObj doc) ''uploadedAt'' = JDate (now e)
               \<and> getProp (JObj doc) ''userId'' = userId e
               \<and> getProp (JObj doc) ''shopId'' = getShopId e
               \<and> getProp (JObj doc) ''mapping'' = getProp values ''mappingByUser'')"
proof -
  from saveJobItem_Inr [OF assms]
  have obj: "check_Object values" and fresh: "JobItems d (jobItemRandomId e) = None"
    and r: "r = JStr (jobItemRandomId e)" by simp_all
  let ?doc = "[(''_id'', JStr (jobItemRandomId e)),
             (''collection'', getProp values ''collection''),
             (''fileSource'', getProp values ''fileSource''),
             (''hasHeader'', getProp values ''hasHeader''),
             (''jobSubType'', getProp values ''jobSubType''),
             (''jobType'', getProp values ''jobType''),
             (''mapping'', getProp values ''mappingByUser''),
             (''mappingId'', getProp values ''mappingId''),
             (''name'', getProp values ''name''),
             (''shopId'', getShopId e),
             (''status'', JStr ''pending''),
             (''uploadedAt'', JDate (now e)),
             (''userId'', userId e)]"
  have stored: "JobItems (snd (saveJobItem e values d)) = (JobItems d)(jobItemRandomId e \<mapsto> ?doc)"
    by (rule saveJobItem_JobItems [OF obj fresh])
  have fields: "getProp (JObj ?doc) ''_id'' = JStr (jobItemRandomId e)
      \<and> getProp (JObj ?doc) ''status'' = JStr ''pending''
      \<and> getProp (JObj ?doc) ''uploadedAt'' = JDate (now e)
      \<and> getProp (JObj ?doc) ''userId'' = userId e
      \<and> getProp (JObj ?doc) ''shopId'' = getShopId e
      \<and> getProp (JObj ?doc) ''mapping'' = getProp values ''mappingByUser''"
    by simp
  from stored fields show ?thesis
    using r fresh by blast
qed

text \<open>Scenario A of the spec: the call returns \<open>j1\<close>, the identifier generated.\<close>

theorem saveJobItem_returns_pending_job_witness:
  "fst (saveJobItem
        \<lparr>getShopId = JStr ''shop1'', userId = JStr ''user1'', now = 1000,
        jobItemRandomId = ''j1'', mappingRandomId = ''m2''\<rparr>
        (JObj [(''collection'', JStr ''products''), (''mappingId'', JStr ''create''),
               (''shouldSaveToNewMapping'', JBool False),
               (''mappingByUser'', JObj [(''sku'', JStr ''SKU'')])])
        \<lparr>JobItems = Map.empty, Mappings = Map.empty\<rparr>) = Inr (JStr ''j1'')
   \<and> JStr ''j1'' = JStr (jobItemRandomId
        \<lparr>getShopId = JStr ''shop1'', userId = JStr ''user1'', now = 1000,
        jobItemRandomId = ''j1'', mappingRandomId = ''m2''\<rparr>)
   \<and> JobItems \<lparr>JobItems = Map.empty, Mappings = Map.empty\<rparr> ''j1'' = None
   \<and> (\<exists>doc. JobItems (snd (saveJobItem
        \<lparr>getShopId = JStr ''shop1'', userId = JStr ''user1'', now = 1000,
        jobItemRandomId = ''j1'', mappingRandomId = ''m2''\<rparr>
        (JObj [(''collection'', JStr ''products''), (''mappingId'', JStr ''create''),
               (''shouldSaveToNewMapping'', JBool False),
               (''mappingByUser'', JObj [(''sku'', JStr ''SKU'')])])
        \<lparr>JobItems = Map.empty, Mappings = Map.empty\<rparr>)) = [''j1'' \<mapsto> doc]
        \<and> getProp (JObj doc) ''status'' = JStr ''pending''
        \<and> getProp (JObj doc) ''mapping'' = JObj [(''sku'', JStr ''SKU'')])"
proof -
  have ret: "fst (saveJobItem
        \<lparr>getShopId = JStr ''shop1'', userId = JStr ''user1'', now = 1000,
        jobItemRandomId = ''j1'', mappingRandomId = ''m2''\<rparr>
        (JObj [(''collection'', JStr ''products''), (''mappingId'', JStr ''create''),
               (''shouldSaveToNewMapping'', JBool False),
               (''mappingByUser'', JObj [(''sku'', JStr ''SKU'')])])
        \<lparr>JobItems = Map.empty, Mappings = Map.empty\<rparr>) = Inr (JStr ''j1'')"
    by (simp add: saveJobItem_def collection_insert_def Let_def)
  have supplied: "getProp (JObj [(''collection'', JStr ''products''), (''mappingId'', JStr ''create''),
               (''shouldSaveToNewMapping'', JBool False),
               (''mappingByUser'', JObj [(''sku'', JStr ''SKU'')])]) ''mappingByUser''
      = JObj [(''sku'', JStr ''SKU'')]"
    by simp
  from saveJobItem_returns_pending_job [OF ret] ret supplied show ?thesis
    by (auto simp del: getProp.simps)
qed

section \<open>Saving a job item: the calling context\<close>

text \<open>
  C8, as the code has it. \<^verbatim>\<open>saveJobItem\<close> does not test what \<^verbatim>\<open>Reaction.getShopId()\<close> and
  \<^verbatim>\<open>Meteor.userId()\<close> give: whenever \<^verbatim>\<open>values\<close> is a plain object and the generated
  identifier is fresh, the job item is stored with \<^verbatim>\<open>shopId\<close> and \<^verbatim>\<open>userId\<close> as obtained,
  \<^verbatim>\<open>null\<close> and \<^verbatim>\<open>undefined\<close> included.
\<close>

theorem saveJobItem_context_unchecked:
  assumes "check_Object values"
    and "JobItems d (jobItemRandomId e) = None"
  shows "\<exists>doc. JobItems (snd (saveJobItem e values d)) (jobItemRandomId e) = Some doc
            \<and> getProp (JObj doc) ''shopId'' = getShopId e
            \<and> getProp (JObj doc) ''userId'' = userId e"
  unfolding saveJobItem_JobItems [OF assms] by simp

theorem saveJobItem_context_unchecked_witness:
  "check_Object (JObj [(''collection'', JStr ''products''), (''mappingId'', JStr ''create''),
               (''shouldSaveToNewMapping'', JBool False),
               (''mappingByUser'', JObj [(''sku'', JStr ''SKU'')])])
   \<and> JobItems \<lparr>JobItems = Map.empty, Mappings = Map.empty\<rparr> (jobItemRandomId
        \<lparr>getShopId = JStr ''shop1'', userId = JNull, now = 1000,
        jobItemRandomId = ''j1'', mappingRandomId = ''m2''\<rparr>) = None
   \<and> (\<exists>doc. JobItems (snd (saveJobItem
        \<lparr>getShopId = JStr ''shop1'', userId = JNull, now = 1000,
        jobItemRandomId = ''j1'', mappingRandomId = ''m2''\<rparr>
        (JObj [(''collection'', JStr ''products''), (''mappingId'', JStr ''create''),
               (''shouldSaveToNewMapping'', JBool False),
               (''mappingByUser'', JObj [(''sku'', JStr ''SKU'')])])
        \<lparr>JobItems = Map.empty, Mappings = Map.empty\<rparr>)) ''j1'' = Some doc
        \<and> getProp (JObj doc) ''userId'' = JNull)"
  using saveJobItem_context_unchecked
    [of "(JObj [(''collection'', JStr ''products''), (''mappingId'', JStr ''create''),
               (''shouldSaveToNewMapping'', JBool False),
               (''mappingByUser'', JObj [(''sku'', JStr ''SKU'')])])"
        "\<lparr>JobItems = Map.empty, Mappings = Map.empty\<rparr>"
        "\<lparr>getShopId = JStr ''shop1'', userId = JNull, now = 1000,
        jobItemRandomId = ''j1'', mappingRandomId = ''m2''\<rparr>"]
  by (auto simp del: getProp.simps)

text \<open>
  C8 as stated fails: with no user logged in, \<^verbatim>\<open>Meteor.userId()\<close> is \<^verbatim>\<open>null\<close>, and the call
  still returns the new identifier and stores the job item, its \<^verbatim>\<open>userId\<close> being \<^verbatim>\<open>null\<close>.
\<close>

theorem saveJobItem_no_user_counterexample:
  "userId \<lparr>getShopId = JStr ''shop1'', userId = JNull, now = 1000,
        jobItemRandomId = ''j1'', mappingRandomId = ''m2''\<rparr> = JNull
   \<and> fst (saveJobItem
        \<lparr>getShopId = JStr ''shop1'', userId = JNull, now = 1000,
        jobItemRandomId = ''j1'', mappingRandomId = ''m2''\<rparr>
        (JObj [(''collection'', JStr ''products''), (''mappingId'', JStr ''create''),
               (''shouldSaveToNewMapping'', JBool False),
               (''mappingByUser'', JObj [(''sku'', JStr ''SKU'')])])
        \<lparr>JobItems = Map.empty, Mappings = Map.empty\<rparr>) = Inr (JStr ''j1'')
   \<and> JobItems (snd (saveJobItem
        \<lparr>getShopId = JStr ''shop1'', userId = JNull, now = 1000,
        jobItemRandomId = ''j1'', mappingRandomId = ''m2''\<rparr>
        (JObj [(''collection'', JStr ''products''), (''mappingId'', JStr ''create''),
               (''shouldSaveToNewMapping'', JBool False),
               (''mappingByUser'', JObj [(''sku'', JStr ''SKU'')])])
        \<lparr>JobItems = Map.empty, Mappings = Map.empty\<rparr>)) ''j1''
      = Some [(''_id'', JStr ''j1''),
              (''collection'', JStr ''products''),
              (''fileSource'', JUndefined),
              (''hasHeader'', JUndefined),
              (''jobSubType'', JUndefined),
              (''jobType'', JUndefined),
              (''mapping'', JObj [(''sku'', JStr ''SKU'')]),
              (''mappingId'', JStr ''create''),
              (''name'', JUndefined),
              (''shopId'', JStr ''shop1''),
              (''status'', JStr ''pending''),
              (''uploadedAt'', JDate 1000),
              (''userId'', JNull)]"
  by (simp add: saveJobItem_def collection_insert_def Let_def)

section \<open>Saving a job item: the mapping decision\<close>






text \<open>
  C4. When \<^verbatim>\<open>mappingId\<close> is an identifier other than \<^verbatim>\<open>"create"\<close> and
  \<^verbatim>\<open>saveMappingAction\<close> is \<^verbatim>\<open>"update"\<close>, the template stored at \<^verbatim>\<open>mappingId\<close> has its
  \<^verbatim>\<open>mapping\<close> field replaced by \<^verbatim>\<open>mappingByUser\<close> and keeps every other field, its
  identifier among them; every other template is as it was, and the set of stored
  identifiers is the same, so no template is inserted.
\<close>

theorem saveJobItem_update_mapping:
  assumes "getProp values ''mappingId'' = JStr mid"
    and "mid \<noteq> ''create''"
    and "getProp values ''saveMappingAction'' = JStr ''update''"
    and "JobItems d (jobItemRandomId e) = None"
  shows "dom (Mappings (snd (saveJobItem e values d))) = dom (Mappings d)
         \<and> (\<forall>k. k \<noteq> mid \<longrightarrow> Mappings (snd (saveJobItem e values d)) k = Mappings d k)
         \<and> (\<forall>t. Mappings d mid = Some t \<longrightarrow>
               Mappings (snd (saveJobItem e values d)) mid =
                 Some (AList.update ''mapping'' (getProp values ''mappingByUser'') t)
               \<and> getProp (JObj (AList.update ''mapping'' (getProp values ''mappingByUser'') t)) ''mapping''
                   = getProp values ''mappingByUser''
               \<and> (\<forall>k. k \<noteq> ''mapping'' \<longrightarrow>
                     getProp (JObj (AList.update ''mapping'' (getProp values ''mappingByUser'') t)) k
                       = getProp (JObj t) k))"
proof -
  have obj: "check_Object values"
    using assms(1) getProp_not_object [of "values" "''mappingId''"] by auto
  have res: "snd (saveJobItem e values d) =
      d\<lparr>JobItems := (JobItems d)(jobItemRandomId e \<mapsto>
            [(''_id'', JStr (jobItemRandomId e)),
             (''collection'', getProp values ''collection''),
             (''fileSource'', getProp values ''fileSource''),
             (''hasHeader'', getProp values ''hasHeader''),
             (''jobSubType'', getProp values ''jobSubType''),
             (''jobType'', getProp values ''jobType''),
             (''mapping'', getProp values ''mappingByUser''),
             (''mappingId'', getProp values ''mappingId''),
             (''name'', getProp values ''name''),
             (''shopId'', getShopId e),
             (''status'', JStr ''pending''),
             (''uploadedAt'', JDate (now e)),
             (''userId'', userId e)]),
        Mappings := collection_update_set (JStr mid) ''mapping'' (getProp values ''mappingByUser'')
                      (Mappings d)\<rparr>"
    using assms obj by (simp add: saveJobItem_def collection_insert_def Let_def)
  show ?thesis
    unfolding res
    by (auto simp add: collection_update_set_def getProp_AList_update simp del: getProp.simps
        split: option.splits)
qed

text \<open>Scenario B of the spec: the mapping of \<open>m1\<close> becomes the one supplied.\<close>

theorem saveJobItem_update_mapping_witness:
  "getProp (JObj [(''mappingId'', JStr ''m1''), (''saveMappingAction'', JStr ''update''),
               (''mappingByUser'', JObj [(''sku'', JStr ''SKU2'')])]) ''mappingId'' = JStr ''m1''
   \<and> ''m1'' \<noteq> ''create''
   \<and> getProp (JObj [(''mappingId'', JStr ''m1''), (''saveMappingAction'', JStr ''update''),
               (''mappingByUser'', JObj [(''sku'', JStr ''SKU2'')])]) ''saveMappingAction'' = JStr ''update''
   \<and> JobItems \<lparr>JobItems = Map.empty,
        Mappings = [''m1'' \<mapsto> [(''_id'', JStr ''m1''), (''name'', JStr ''first''),
                              (''mapping'', JObj [(''sku'', JStr ''SKU'')])]]\<rparr> (jobItemRandomId
        \<lparr>getShopId = JStr ''shop1'', userId = JStr ''user1'', now = 1000,
        jobItemRandomId = ''j1'', mappingRandomId = ''m2''\<rparr>) = None
   \<and> Mappings (snd (saveJobItem
        \<lparr>getShopId = JStr ''shop1'', userId = JStr ''user1'', now = 1000,
        jobItemRandomId = ''j1'', mappingRandomId = ''m2''\<rparr>
        (JObj [(''mappingId'', JStr ''m1''), (''saveMappingAction'', JStr ''update''),
               (''mappingByUser'', JObj [(''sku'', JStr ''SKU2'')])])
        \<lparr>JobItems = Map.empty,
        Mappings = [''m1'' \<mapsto> [(''_id'', JStr ''m1''), (''name'', JStr ''first''),
                              (''mapping'', JObj [(''sku'', JStr ''SKU'')])]]\<rparr>)) ''m1''
      = Some [(''_id'', JStr ''m1''), (''name'', JStr ''first''),
              (''mapping'', JObj [(''sku'', JStr ''SKU2'')])]
   \<and> Mappings (snd (saveJobItem
        \<lparr>getShopId = JStr ''shop1'', userId = JStr ''user1'', now = 1000,
        jobItemRandomId = ''j1'', mappingRandomId = ''m2''\<rparr>
        (JObj [(''mappingId'', JStr ''m1''), (''saveMappingAction'', JStr ''update''),
               (''mappingByUser'', JObj [(''sku'', JStr ''SKU2'')])])
        \<lparr>JobItems = Map.empty,
        Mappings = [''m1'' \<mapsto> [(''_id'', JStr ''m1''), (''name'', JStr ''first''),
                              (''mapping'', JObj [(''sku'', JStr ''SKU'')])]]\<rparr>)) ''m2'' = None"
  using saveJobItem_update_mapping
    [of "(JObj [(''mappingId'', JStr ''m1''), (''saveMappingAction'', JStr ''update''),
               (''mappingByUser'', JObj [(''sku'', JStr ''SKU2'')])])" "''m1''"
        "\<lparr>JobItems = Map.empty,
        Mappings = [''m1'' \<mapsto> [(''_id'', JStr ''m1''), (''name'', JStr ''first''),
                              (''mapping'', JObj [(''sku'', JStr ''SKU'')])]]\<rparr>"
        "\<lparr>getShopId = JStr ''shop1'', userId = JStr ''user1'', now = 1000,
        jobItemRandomId = ''j1'', mappingRandomId = ''m2''\<rparr>"]
  by simp

text \<open>
  C5. When \<^verbatim>\<open>mappingId\<close> is \<^verbatim>\<open>"create"\<close> and \<^verbatim>\<open>shouldSaveToNewMapping\<close> does not hold (it is
  \<^verbatim>\<open>false\<close> or absent), the \<^verbatim>\<open>Mappings\<close> collection after the call is the one before, and
  the job item the call stores has as \<^verbatim>\<open>mapping\<close> the \<^verbatim>\<open>mappingByUser\<close> of the argument.
\<close>

theorem saveJobItem_adhoc_mapping:
  assumes "getProp values ''mappingId'' = JStr ''create''"
    and "\<not> truthy (getProp values ''shouldSaveToNewMapping'')"
  shows "Mappings (snd (saveJobItem e values d)) = Mappings d
         \<and> (JobItems d (jobItemRandomId e) = None \<longrightarrow>
               fst (saveJobItem e values d) = Inr (JStr (jobItemRandomId e))
               \<and> (\<exists>doc. JobItems (snd (saveJobItem e values d)) (jobItemRandomId e) = Some doc
                      \<and> getProp (JObj doc) ''mapping'' = getProp values ''mappingByUser''))"
proof -
  have obj: "check_Object values"
    using assms(1) getProp_not_object [of "values" "''mappingId''"] by auto
  show ?thesis
    using assms obj
    by (simp add: saveJobItem_def collection_insert_def Let_def split: option.splits)
qed

text \<open>Scenario A of the spec: the stored templates are unchanged.\<close>

theorem saveJobItem_adhoc_mapping_witness:
  "getProp (JObj [(''collection'', JStr ''products''), (''mappingId'', JStr ''create''),
               (''shouldSaveToNewMapping'', JBool False),
               (''mappingByUser'', JObj [(''sku'', JStr ''SKU'')])]) ''mappingId'' = JStr ''create''
   \<and> \<not> truthy (getProp (JObj [(''collection'', JStr ''products''), (''mappingId'', JStr ''create''),
               (''shouldSaveToNewMapping'', JBool False),
               (''mappingByUser'', JObj [(''sku'', JStr ''SKU'')])]) ''shouldSaveToNewMapping'')
   \<and> Mappings (snd (saveJobItem
        \<lparr>getShopId = JStr ''shop1'', userId = JStr ''user1'', now = 1000,
        jobItemRandomId = ''j1'', mappingRandomId = ''m2''\<rparr>
        (JObj [(''collection'', JStr ''products''), (''mappingId'', JStr ''create''),
               (''shouldSaveToNewMapping'', JBool False),
               (''mappingByUser'', JObj [(''sku'', JStr ''SKU'')])])
        \<lparr>JobItems = Map.empty,
        Mappings = [''m1'' \<mapsto> [(''_id'', JStr ''m1''), (''name'', JStr ''first''),
                              (''mapping'', JObj [(''sku'', JStr ''SKU'')])]]\<rparr>))
      = Mappings \<lparr>JobItems = Map.empty,
        Mappings = [''m1'' \<mapsto> [(''_id'', JStr ''m1''), (''name'', JStr ''first''),
                              (''mapping'', JObj [(''sku'', JStr ''SKU'')])]]\<rparr>
   \<and> fst (saveJobItem
        \<lparr>getShopId = JStr ''shop1'', userId = JStr ''user1'', now = 1000,
        jobItemRandomId = ''j1'', mappingRandomId = ''m2''\<rparr>
        (JObj [(''collection'', JStr ''products''), (''mappingId'', JStr ''create''),
               (''shouldSaveToNewMapping'', JBool False),
               (''mappingByUser'', JObj [(''sku'', JStr ''SKU'')])])
        \<lparr>JobItems = Map.empty,
        Mappings = [''m1'' \<mapsto> [(''_id'', JStr ''m1''), (''name'', JStr ''first''),
                              (''mapping'', JObj [(''sku'', JStr ''SKU'')])]]\<rparr>) = Inr (JStr ''j1'')"
  using saveJobItem_adhoc_mapping
    [of "(JObj [(''collection'', JStr ''products''), (''mappingId'', JStr ''create''),
               (''shouldSaveToNewMapping'', JBool False),
               (''mappingByUser'', JObj [(''sku'', JStr ''SKU'')])])"
        "\<lparr>getShopId = JStr ''shop1'', userId = JStr ''user1'', now = 1000,
        jobItemRandomId = ''j1'', mappingRandomId = ''m2''\<rparr>"
        "\<lparr>JobItems = Map.empty,
        Mappings = [''m1'' \<mapsto> [(''_id'', JStr ''m1''), (''name'', JStr ''first''),
                              (''mapping'', JObj [(''sku'', JStr ''SKU'')])]]\<rparr>"]
  by simp

text \<open>
  C10. When \<^verbatim>\<open>mappingId\<close> is \<^verbatim>\<open>"create"\<close>, \<^verbatim>\<open>saveMappingAction\<close> is not looked at: giving
  that field any value changes neither the result of the call nor the database it leaves.
  In particular, with \<^verbatim>\<open>shouldSaveToNewMapping\<close> not holding, the \<^verbatim>\<open>Mappings\<close> collection is
  unchanged whatever \<^verbatim>\<open>saveMappingAction\<close> says, \<^verbatim>\<open>"update"\<close> and \<^verbatim>\<open>"create"\<close> included.
\<close>

theorem saveJobItem_ignores_saveMappingAction:
  assumes "map_of kvs ''mappingId'' = Some (JStr ''create'')"
  shows "saveJobItem e (JObj ((''saveMappingAction'', a) # kvs)) d = saveJobItem e (JObj kvs) d
         \<and> (\<not> truthy (getProp (JObj kvs) ''shouldSaveToNewMapping'') \<longrightarrow>
               Mappings (snd (saveJobItem e (JObj ((''saveMappingAction'', a) # kvs)) d))
                 = Mappings d)"
  using assms
  by (simp add: saveJobItem_def collection_insert_def Let_def split: option.splits)

theorem saveJobItem_ignores_saveMappingAction_witness:
  "map_of [(''collection'', JStr ''products''), (''mappingId'', JStr ''create''),
               (''shouldSaveToNewMapping'', JBool False),
               (''mappingByUser'', JObj [(''sku'', JStr ''SKU'')])] ''mappingId'' = Some (JStr ''create'')
   \<and> saveJobItem
        \<lparr>getShopId = JStr ''shop1'', userId = JStr ''user1'', now = 1000,
        jobItemRandomId = ''j1'', mappingRandomId = ''m2''\<rparr>
        (JObj ((''saveMappingAction'', JStr ''update'') #
              [(''collection'', JStr ''products''), (''mappingId'', JStr ''create''),
               (''shouldSaveToNewMapping'', JBool False),
               (''mappingByUser'', JObj [(''sku'', JStr ''SKU'')])]))
        \<lparr>JobItems = Map.empty,
        Mappings = [''m1'' \<mapsto> [(''_id'', JStr ''m1''), (''name'', JStr ''first''),
                              (''mapping'', JObj [(''sku'', JStr ''SKU'')])]]\<rparr>
      = saveJobItem
        \<lparr>getShopId = JStr ''shop1'', userId = JStr ''user1'', now = 1000,
        jobItemRandomId = ''j1'', mappingRandomId = ''m2''\<rparr>
        (JObj [(''collection'', JStr ''products''), (''mappingId'', JStr ''create''),
               (''shouldSaveToNewMapping'', JBool False),
               (''mappingByUser'', JObj [(''sku'', JStr ''SKU'')])])
        \<lparr>JobItems = Map.empty,
        Mappings = [''m1'' \<mapsto> [(''_id'', JStr ''m1''), (''name'', JStr ''first''),
                              (''mapping'', JObj [(''sku'', JStr ''SKU'')])]]\<rparr>
   \<and> Mappings (snd (saveJobItem
        \<lparr>getShopId = JStr ''shop1'', userId = JStr ''user1'', now = 1000,
        jobItemRandomId = ''j1'', mappingRandomId = ''m2''\<rparr>
        (JObj ((''saveMappingAction'', JStr ''update'') #
              [(''collection'', JStr ''products''), (''mappingId'', JStr ''create''),
               (''shouldSaveToNewMapping'', JBool False),
               (''mappingByUser'', JObj [(''sku'', JStr ''SKU'')])]))
        \<lparr>JobItems = Map.empty,
        Mappings = [''m1'' \<mapsto> [(''_id'', JStr ''m1''), (''name'', JStr ''first''),
                              (''mapping'', JObj [(''sku'', JStr ''SKU'')])]]\<rparr>))
      = Mappings \<lparr>JobItems = Map.empty,
        Mappings = [''m1'' \<mapsto> [(''_id'', JStr ''m1''), (''name'', JStr ''first''),
                              (''mapping'', JObj [(''sku'', JStr ''SKU'')])]]\<rparr>"
  using saveJobItem_ignores_saveMappingAction
    [of "[(''collection'', JStr ''products''), (''mappingId'', JStr ''create''),
               (''shouldSaveToNewMapping'', JBool False),
               (''mappingByUser'', JObj [(''sku'', JStr ''SKU'')])]"
        "\<lparr>getShopId = JStr ''shop1'', userId = JStr ''user1'', now = 1000,
        jobItemRandomId = ''j1'', mappingRandomId = ''m2''\<rparr>"
        "JStr ''update''"
        "\<lparr>JobItems = Map.empty,
        Mappings = [''m1'' \<mapsto> [(''_id'', JStr ''m1''), (''name'', JStr ''first''),
                              (''mapping'', JObj [(''sku'', JStr ''SKU'')])]]\<rparr>"]
  by (simp add: saveJobItem_def collection_insert_def Let_def)

end
